theory Spec2Isabelle
  imports Complex_Main
begin

section \<open>Data model\<close>

text \<open>
  The entities of \<^verbatim>\<open>db/token.ts\<close>, \<^verbatim>\<open>db/user.ts\<close> and
  \<^verbatim>\<open>tokens/tokenAmount.ts\<close> as records. Amounts are \<^verbatim>\<open>bigint\<close>
  values in the smallest unit, hence \<^typ>\<open>int\<close>.
\<close>

record Token =
  token_id :: string
  symbol :: string
  decimals :: nat

record TokenAmount =
  amount :: int
  token :: Token

type_synonym UserBalance = "TokenAmount list"

record User =
  user_id :: "nat option"
  telegramId :: int
  telegramUsername :: string
  user_address :: "string option"

text \<open>What the node answers to an address-balance query (\<^verbatim>\<open>Balance\<close> of the node API).\<close>

record Balance =
  balance :: int
  tokenBalances :: "(string \<times> int) list option"
  utxoNum :: nat

record Wallet =
  wallet_address :: string
  publicKey :: string
  wallet_group :: nat

record Destination =
  dest_address :: "string option"
  attoAlphAmount :: int
  tokens :: "(string \<times> int) list"

section \<open>Raw failures and the error taxonomy (\<^verbatim>\<open>error.ts\<close>)\<close>

text \<open>
  A value caught from a gateway call is either an \<^verbatim>\<open>Error\<close> instance carrying a
  message, or some other JavaScript value.
\<close>

datatype js_value = ErrorObj string | OtherValue string

text \<open>An exception raised by the classification code itself.\<close>

datatype thrown = TypeError

datatype error =
    Unclassified js_value
  | NetworkError js_value
  | AlphApiIOError js_value
  | AlphAmountOverflowError js_value
  | NotEnoughFundsError js_value
  | NotEnoughBalanceForFeeError js_value
  | NotEnoughApprovedBalanceForAddressError js_value
  | NotEnoughALPHForTransactionOutputError js_value
  | NotEnoughALPHForALPHAndTokenChangeOutputError js_value
  | GeneralError string js_value
  | InvalidAddressError string
  | TooSmallALPHWithdrawalError TokenAmount
  | USER_ALREADY_REGISTERED
  | UncaughtTypeError

definition alphErrorIsNetworkError :: "js_value \<Rightarrow> bool" where
  "alphErrorIsNetworkError v =
     (case v of ErrorObj m \<Rightarrow> m = ''fetch failed'' | OtherValue _ \<Rightarrow> False)"

subsection \<open>The pattern \<^verbatim>\<open>notEnoughFundsRegex\<close>\<close>

definition is_digit :: "char \<Rightarrow> bool" where
  "is_digit c = (c \<in> set ''0123456789'')"

fun strip_prefix :: "string \<Rightarrow> string \<Rightarrow> string option" where
  "strip_prefix [] s = Some s"
| "strip_prefix (p # ps) [] = None"
| "strip_prefix (p # ps) (c # cs) = (if p = c then strip_prefix ps cs else None)"

text \<open>
  \<^verbatim>\<open>message.match(/^\[API Error\] - Not enough balance: got (\d+), expected (\d+)$/)\<close>:
  \<^const>\<open>None\<close> is JavaScript's \<^verbatim>\<open>null\<close> (no match); a match is the array of the
  whole match followed by the two captured groups.
\<close>

definition match_notEnoughFundsRegex :: "string \<Rightarrow> string list option" where
  "match_notEnoughFundsRegex m =
     (case strip_prefix ''[API Error] - Not enough balance: got '' m of
        None \<Rightarrow> None
      | Some r \<Rightarrow>
          (let got = takeWhile is_digit r; r1 = dropWhile is_digit r in
           if got = [] then None
           else (case strip_prefix '', expected '' r1 of
                   None \<Rightarrow> None
                 | Some expected \<Rightarrow>
                     if expected \<noteq> [] \<and> list_all is_digit expected
                     then Some [m, got, expected] else None)))"

text \<open>
  \<^verbatim>\<open>alphErrorIsNotEnoughFundsError\<close>: a value that is no \<^verbatim>\<open>Error\<close> gives
  \<^verbatim>\<open>false\<close>; otherwise the result of \<^verbatim>\<open>match\<close> is read with
  \<^verbatim>\<open>numbers.length\<close>, which raises a \<^verbatim>\<open>TypeError\<close> on \<^verbatim>\<open>null\<close>.
\<close>

definition alphErrorIsNotEnoughFundsError :: "js_value \<Rightarrow> thrown + bool" where
  "alphErrorIsNotEnoughFundsError err =
     (case err of
        OtherValue _ \<Rightarrow> Inr False
      | ErrorObj m \<Rightarrow>
          (case match_notEnoughFundsRegex m of
             None \<Rightarrow> Inl TypeError
           | Some numbers \<Rightarrow> Inr (3 = length numbers)))"

text \<open>
  The six other predicates that \<^verbatim>\<open>adaptError\<close> calls are declared in a part of
  \<^verbatim>\<open>error.ts\<close> that is not among the sources; they are parameters, each either
  answering or raising.
\<close>

record ErrorPredicates =
  alphErrorIsIOFailureError :: "js_value \<Rightarrow> thrown + bool"
  alphErrorIsAlphAmountOverflowError :: "js_value \<Rightarrow> thrown + bool"
  alphErrorIsNotEnoughBalanceForFeeError :: "js_value \<Rightarrow> thrown + bool"
  alphErrorIsNotEnoughApprovedBalanceForAddress :: "js_value \<Rightarrow> thrown + bool"
  alphErrorIsNotEnoughALPHForTransactionOutputError :: "js_value \<Rightarrow> thrown + bool"
  alphErrorIsNotEnoughALPHForALPHAndTokenChangeOutputError :: "js_value \<Rightarrow> thrown + bool"

text \<open>One \<^verbatim>\<open>if (test) return v; else rest\<close> link of the chain.\<close>

definition else_if :: "thrown + bool \<Rightarrow> 'a \<Rightarrow> thrown + 'a \<Rightarrow> thrown + 'a" where
  "else_if test v rest =
     (case test of Inl t \<Rightarrow> Inl t | Inr b \<Rightarrow> if b then Inr v else rest)"

definition adaptError :: "ErrorPredicates \<Rightarrow> js_value \<Rightarrow> thrown + error" where
  "adaptError P err =
     else_if (Inr (alphErrorIsNetworkError err)) (NetworkError err)
    (else_if (alphErrorIsIOFailureError P err) (AlphApiIOError err)
    (else_if (alphErrorIsAlphAmountOverflowError P err) (AlphAmountOverflowError err)
    (else_if (alphErrorIsNotEnoughFundsError err) (NotEnoughFundsError err)
    (else_if (alphErrorIsNotEnoughBalanceForFeeError P err) (NotEnoughBalanceForFeeError err)
    (else_if (alphErrorIsNotEnoughApprovedBalanceForAddress P err)
       (NotEnoughApprovedBalanceForAddressError err)
    (else_if (alphErrorIsNotEnoughALPHForTransactionOutputError P err)
       (NotEnoughALPHForTransactionOutputError err)
    (else_if (alphErrorIsNotEnoughALPHForALPHAndTokenChangeOutputError P err)
       (NotEnoughALPHForALPHAndTokenChangeOutputError err)
    (Inr (Unclassified err)))))))))"

text \<open>
  \<^verbatim>\<open>.catch((err) => Promise.reject(this.adaptError(err)))\<close>: an exception raised
  inside the handler becomes the rejection.
\<close>

definition rejectAdapted :: "ErrorPredicates \<Rightarrow> js_value \<Rightarrow> error" where
  "rejectAdapted P err =
     (case adaptError P err of Inl TypeError \<Rightarrow> UncaughtTypeError | Inr e \<Rightarrow> e)"

text \<open>Predicates that recognise nothing, for concrete runs.\<close>

definition no_match :: ErrorPredicates where
  "no_match = \<lparr>
     alphErrorIsIOFailureError = (\<lambda>_. Inr False),
     alphErrorIsAlphAmountOverflowError = (\<lambda>_. Inr False),
     alphErrorIsNotEnoughBalanceForFeeError = (\<lambda>_. Inr False),
     alphErrorIsNotEnoughApprovedBalanceForAddress = (\<lambda>_. Inr False),
     alphErrorIsNotEnoughALPHForTransactionOutputError = (\<lambda>_. Inr False),
     alphErrorIsNotEnoughALPHForALPHAndTokenChangeOutputError = (\<lambda>_. Inr False) \<rparr>"

section \<open>Token amounts (\<^verbatim>\<open>tokens/tokenAmount.ts\<close>)\<close>

text \<open>
  Modelled from the spec: \<^verbatim>\<open>TokenAmount.substractAndGetPercentage\<close> lives in
  \<^verbatim>\<open>tokens/tokenAmount.ts\<close>, which is not among the sources. The spec: the fee is
  a percentage of the amount, computed in integer arithmetic and floored; the fee is
  returned and the receiver keeps the remainder. The result is the pair of the returned
  fee and the receiver after the call.
\<close>

definition substractAndGetPercentage :: "TokenAmount \<Rightarrow> int \<Rightarrow> TokenAmount \<times> TokenAmount" where
  "substractAndGetPercentage t p =
     (let fee = amount t * p div 100
      in (t\<lparr>amount := fee\<rparr>, t\<lparr>amount := amount t - fee\<rparr>))"

text \<open>
  Modelled from the spec: \<^verbatim>\<open>sumUserBalance\<close> lives in \<^verbatim>\<open>tokens/tokenAmount.ts\<close>,
  which is not among the sources. The spec: merging balances gives one entry for each
  distinct asset with the amounts added; an asset present on one side only passes
  through unchanged.
\<close>

fun addTokenAmount :: "TokenAmount \<Rightarrow> UserBalance \<Rightarrow> UserBalance" where
  "addTokenAmount t [] = [t]"
| "addTokenAmount t (x # xs) =
     (if token_id (token x) = token_id (token t)
      then x\<lparr>amount := amount x + amount t\<rparr> # xs
      else x # addTokenAmount t xs)"

definition sumUserBalance :: "UserBalance list \<Rightarrow> UserBalance" where
  "sumUserBalance bs = fold addTokenAmount (concat bs) []"

section \<open>Collaborators of \<^verbatim>\<open>AlphClient\<close>\<close>

text \<open>
  The token registry (\<^verbatim>\<open>tokens/tokenManager.ts\<close>, not among the sources): both
  lookups are promises, rejected with some value when the token is not known.
\<close>

record TokenManager =
  getTokenBySymbol :: "string \<Rightarrow> js_value + Token"
  getTokenAmountFromIdAmount :: "string \<Rightarrow> int \<Rightarrow> js_value + TokenAmount"

text \<open>
  The node and the wallet SDK, as the answers they give. A balance query takes the
  address and the optional \<^verbatim>\<open>mempool\<close> flag; a confirmation wait that never ends
  is \<^const>\<open>None\<close>.
\<close>

record NodeProvider =
  getAddressesAddressBalance :: "string option \<Rightarrow> bool option \<Rightarrow> js_value + Balance"
  postTransactionsSweepAddressBuild :: "string \<Rightarrow> string \<Rightarrow> js_value + string list"
  signAndSubmitTransferTx :: "string \<Rightarrow> Destination list \<Rightarrow> js_value + string"
  signAndSubmitUnsignedTx :: "string \<Rightarrow> string \<Rightarrow> js_value + string"
  waitForTxConfirmation :: "string \<Rightarrow> nat \<Rightarrow> (js_value + unit) option"

record OperatorConfig =
  fees :: int
  addressesByGroup :: "string list"
  strictMinimalWithdrawalAmount :: real
  strictMinimalWithdrawalAllAmount :: real

record BotConfig =
  nbConfirmationsInternalTransfer :: nat
  nbConfirmationsExternalTransfer :: nat
  nbConfirmationsBetweenMultipleStepsTransactions :: nat
  nbUTXOBeforeConsolidation :: nat
  considerMempool :: bool
  isOnDevNet :: bool

text \<open>
  Library functions and methods of classes that are not among the sources, as
  parameters: \<^verbatim>\<open>isValidAddress\<close> and \<^verbatim>\<open>DUST_AMOUNT\<close> of the web3 SDK, the wallet
  derived from the mnemonic and an index (\<^verbatim>\<open>deriveHDWalletPrivateKey\<close> and
  \<^verbatim>\<open>PrivateKeyWallet\<close>), \<^verbatim>\<open>Token.isALPH\<close> and \<^verbatim>\<open>TokenAmount.amountAsNumber\<close>.
\<close>

record Library =
  isValidAddress :: "string \<Rightarrow> bool"
  DUST_AMOUNT :: int
  deriveHDWallet :: "nat option \<Rightarrow> Wallet"
  isALPH :: "Token \<Rightarrow> bool"
  amountAsNumber :: "TokenAmount \<Rightarrow> real"

record AlphClient =
  nodeProvider :: NodeProvider
  tokenManager :: TokenManager
  operatorConfig :: OperatorConfig
  botConfig :: BotConfig
  library :: Library
  errorPredicates :: ErrorPredicates

subsection \<open>The user store\<close>

text \<open>
  The persistence collaborator (\<^verbatim>\<open>Repository<User>\<close> of the ORM library, over rows
  with a generated primary key) as a table in memory, with the operations the client
  calls: \<^verbatim>\<open>existsBy\<close>, \<^verbatim>\<open>save\<close>, \<^verbatim>\<open>count\<close> and \<^verbatim>\<open>find\<close> with
  \<^verbatim>\<open>skip\<close> and \<^verbatim>\<open>take\<close>. \<^verbatim>\<open>save\<close> inserts an entity without id under the
  next generated id, and writes an entity with an id over the row of that id.
\<close>

record UserStore =
  rows :: "User list"
  next_id :: nat

definition existsBy :: "UserStore \<Rightarrow> int \<Rightarrow> bool" where
  "existsBy s tid = list_ex (\<lambda>u. telegramId u = tid) (rows s)"

definition save :: "UserStore \<Rightarrow> User \<Rightarrow> User \<times> UserStore" where
  "save s u =
     (case user_id u of
        None \<Rightarrow>
          (let u' = u\<lparr>user_id := Some (next_id s)\<rparr>
           in (u', s\<lparr>rows := rows s @ [u'], next_id := Suc (next_id s)\<rparr>))
      | Some i \<Rightarrow>
          (u, s\<lparr>rows := (if list_ex (\<lambda>r. user_id r = Some i) (rows s)
                         then map (\<lambda>r. if user_id r = Some i then u else r) (rows s)
                         else rows s @ [u]),
                 next_id := max (next_id s) (Suc i)\<rparr>))"

definition count_users :: "UserStore \<Rightarrow> nat" where
  "count_users s = length (rows s)"

definition find_users :: "UserStore \<Rightarrow> nat \<Rightarrow> nat \<Rightarrow> User list" where
  "find_users s skip tk = take tk (drop skip (rows s))"

section \<open>Asynchronous operations\<close>

text \<open>
  The calls an operation makes on the wallet SDK, on the node and on the status tracker
  are recorded, in the order they are made.
\<close>

datatype call =
    GetUserWallet "nat option"
  | GetAddressesAddressBalance "string option" "bool option"
  | PostTransactionsSweepAddressBuild string string
  | SignAndSubmitTransferTx string "Destination list"
  | SignAndSubmitUnsignedTx string string
  | WaitForTxConfirmation string nat
  | StatusSetTransactionId string
  | StatusNextStep

text \<open>The calls that submit a transfer transaction built by the client.\<close>

fun isTransferCall :: "call \<Rightarrow> bool" where
  "isTransferCall (SignAndSubmitTransferTx _ _) = True"
| "isTransferCall _ = False"

text \<open>
  A promise settles with a value, settles with a rejection, or stays pending for ever.
  A task is the outcome of an operation together with the calls it made.
\<close>

datatype 'a outcome = Resolved 'a | Rejected error | Pending

type_synonym 'a task = "'a outcome \<times> call list"

definition andThen :: "'a task \<Rightarrow> ('a \<Rightarrow> 'b task) \<Rightarrow> 'b task" where
  "andThen m f =
     (case m of
        (Resolved x, l) \<Rightarrow> (case f x of (r, l') \<Rightarrow> (r, l @ l'))
      | (Rejected e, l) \<Rightarrow> (Rejected e, l)
      | (Pending, l) \<Rightarrow> (Pending, l))"

text \<open>
  \<^verbatim>\<open>Promise.all\<close>: every task has been started; the result is the first rejection
  if there is one.
\<close>

definition promiseAll :: "'a task list \<Rightarrow> 'a list task" where
  "promiseAll ts =
     (let outs = map fst ts in
      (case [e. Rejected e \<leftarrow> outs] of
         e # _ \<Rightarrow> Rejected e
       | [] \<Rightarrow> if list_ex (\<lambda>r. case r of Pending \<Rightarrow> True | _ \<Rightarrow> False) outs then Pending
               else Resolved [x. Resolved x \<leftarrow> outs],
       concat (map snd ts)))"

definition lookup_index :: "'a list \<Rightarrow> nat \<Rightarrow> 'a option" where
  "lookup_index xs i = (if i < length xs then Some (xs ! i) else None)"

subsection \<open>Balances\<close>

definition convertAddressBalanceToUserBalance :: "AlphClient \<Rightarrow> Balance \<Rightarrow> js_value + UserBalance" where
  "convertAddressBalanceToUserBalance c b =
     (case getTokenBySymbol (tokenManager c) ''ALPH'' of
        Inl err \<Rightarrow> Inl err
      | Inr alphToken \<Rightarrow>
          (let userBalance = [\<lparr>amount = balance b, token = alphToken\<rparr>] in
           case tokenBalances b of
             None \<Rightarrow> Inr userBalance
           | Some tbs \<Rightarrow>
               if 0 < length tbs then
                 (let userTokens =
                        map (\<lambda>(i, a). getTokenAmountFromIdAmount (tokenManager c) i a) tbs;
                      recognisedToken = filter (\<lambda>t. \<not> isl t) userTokens
                  in Inr (userBalance @ map projr recognisedToken))
               else Inr userBalance))"

definition getUserBalance :: "AlphClient \<Rightarrow> User \<Rightarrow> Token option \<Rightarrow> UserBalance task" where
  "getUserBalance c user tok =
     (let catch = (\<lambda>err. if alphErrorIsNetworkError err then Rejected (NetworkError err)
                          else Rejected (GeneralError ''failed to fetch user balance'' err))
      in (case getAddressesAddressBalance (nodeProvider c) (user_address user) None of
            Inl err \<Rightarrow> catch err
          | Inr b \<Rightarrow>
              (case convertAddressBalanceToUserBalance c b of
                 Inl err \<Rightarrow> catch err
               | Inr ub \<Rightarrow>
                   Resolved (case tok of
                               None \<Rightarrow> ub
                             | Some t \<Rightarrow> filter (\<lambda>x. token_id (token x) = token_id t) ub))),
     [GetAddressesAddressBalance (user_address user) None])"

subsection \<open>\<^verbatim>\<open>getTotalTokenAmount\<close>\<close>

text \<open>
  The loop of \<^verbatim>\<open>getTotalTokenAmount\<close>: \<open>i\<close> advances by \<^verbatim>\<open>userBuffer\<close>, and each
  round asks the store for \<^verbatim>\<open>{ skip: userBuffer*i, take: userBuffer }\<close>.
\<close>

function totalTokenAmountLoop ::
  "AlphClient \<Rightarrow> UserStore \<Rightarrow> nat \<Rightarrow> nat \<Rightarrow> UserBalance \<Rightarrow> UserBalance task" where
  "totalTokenAmountLoop c s totalNbrUsers i totalTokenAmount =
     (let userBuffer = nat \<lceil>real totalNbrUsers / 10\<rceil> in
      if i < totalNbrUsers then
        andThen (promiseAll (map (\<lambda>u. getUserBalance c u None)
                               (find_users s (userBuffer * i) userBuffer)))
          (\<lambda>currentUserBalance.
             totalTokenAmountLoop c s totalNbrUsers (i + userBuffer)
               (sumUserBalance (currentUserBalance @ [totalTokenAmount])))
      else (Resolved totalTokenAmount, []))"
  by pat_completeness auto
termination
proof (relation "measure (\<lambda>(c, s, n, i, t). n - i)")
  show "wf (measure (\<lambda>(c, s, n, i, t). n - i))" by simp
next
  fix c :: AlphClient and s :: UserStore and totalNbrUsers i :: nat
    and totalTokenAmount :: UserBalance and userBuffer :: nat and x :: "UserBalance list"
  assume ub: "userBuffer = nat \<lceil>real totalNbrUsers / 10\<rceil>" and lt: "i < totalNbrUsers"
  from lt have "0 < real totalNbrUsers / 10" by simp
  then have "0 < \<lceil>real totalNbrUsers / 10\<rceil>" by linarith
  with ub have "0 < userBuffer" by simp
  with lt show "((c, s, totalNbrUsers, i + userBuffer, sumUserBalance (x @ [totalTokenAmount])),
                 (c, s, totalNbrUsers, i, totalTokenAmount))
                \<in> measure (\<lambda>(c, s, n, i, t). n - i)"
    by simp
qed

definition getTotalTokenAmount :: "AlphClient \<Rightarrow> UserStore \<Rightarrow> UserBalance task" where
  "getTotalTokenAmount c s = totalTokenAmountLoop c s (count_users s) 0 []"

text \<open>
  The aggregate in the spec's words: the per-user balances of all registered users,
  summed without batching.
\<close>

definition totalTokenAmount_unbatched :: "AlphClient \<Rightarrow> UserStore \<Rightarrow> UserBalance task" where
  "totalTokenAmount_unbatched c s =
     andThen (promiseAll (map (\<lambda>u. getUserBalance c u None) (rows s)))
       (\<lambda>balances. (Resolved (sumUserBalance balances), []))"

subsection \<open>Wallets, submission and confirmation\<close>

definition getUserWallet :: "AlphClient \<Rightarrow> User \<Rightarrow> Wallet" where
  "getUserWallet c user = deriveHDWallet (library c) (user_id user)"

definition deriveUserAddress :: "AlphClient \<Rightarrow> User \<Rightarrow> string" where
  "deriveUserAddress c user = wallet_address (getUserWallet c user)"

text \<open>The derivation as a step of an operation, recorded among its calls.\<close>

definition derivedWallet :: "AlphClient \<Rightarrow> User \<Rightarrow> Wallet task" where
  "derivedWallet c user = (Resolved (getUserWallet c user), [GetUserWallet (user_id user)])"

text \<open>
  \<^verbatim>\<open>wallet.signAndSubmitTransferTx({ signerAddress, destinations }).catch((err) =>
  Promise.reject(this.adaptError(err)))\<close>
\<close>

definition submitTransfer :: "AlphClient \<Rightarrow> Wallet \<Rightarrow> Destination list \<Rightarrow> string task" where
  "submitTransfer c w destinations =
     (case signAndSubmitTransferTx (nodeProvider c) (wallet_address w) destinations of
        Inl err \<Rightarrow> Rejected (rejectAdapted (errorPredicates c) err)
      | Inr txId \<Rightarrow> Resolved txId,
      [SignAndSubmitTransferTx (wallet_address w) destinations])"

text \<open>\<^verbatim>\<open>await waitForTxConfirmation(txId, confirmations, 1000)\<close>: a failure is not translated.\<close>

definition awaitConfirmation :: "AlphClient \<Rightarrow> string \<Rightarrow> nat \<Rightarrow> unit task" where
  "awaitConfirmation c txId confirmations =
     (case waitForTxConfirmation (nodeProvider c) txId confirmations of
        None \<Rightarrow> Pending
      | Some (Inl err) \<Rightarrow> Rejected (Unclassified err)
      | Some (Inr _) \<Rightarrow> Resolved (),
      [WaitForTxConfirmation txId confirmations])"

text \<open>
  \<^verbatim>\<open>if (undefined !== txStatus && !EnvConfig.isOnDevNet())
  txStatus.setTransactionId(txId).displayUpdate()\<close>; the flag \<open>txStatus\<close> says whether
  the caller passed a status tracker.
\<close>

definition displayTransactionId :: "AlphClient \<Rightarrow> bool \<Rightarrow> string \<Rightarrow> unit task" where
  "displayTransactionId c txStatus txId =
     (Resolved (), if txStatus \<and> \<not> isOnDevNet (botConfig c) then [StatusSetTransactionId txId] else [])"

definition sweepWalletFromUserTo :: "AlphClient \<Rightarrow> Wallet \<Rightarrow> string \<Rightarrow> bool \<Rightarrow> string list task" where
  "sweepWalletFromUserTo c userWallet destinationAddress txStatus =
     (let build = PostTransactionsSweepAddressBuild (publicKey userWallet) destinationAddress in
      case postTransactionsSweepAddressBuild (nodeProvider c) (publicKey userWallet) destinationAddress of
        Inl err \<Rightarrow> (Rejected (rejectAdapted (errorPredicates c) err), [build])
      | Inr unsignedTxs \<Rightarrow>
          (let txResults = map (signAndSubmitUnsignedTx (nodeProvider c) (wallet_address userWallet))
                             unsignedTxs;
               calls = build # map (SignAndSubmitUnsignedTx (wallet_address userWallet)) unsignedTxs
           in case filter isl txResults of
                r # _ \<Rightarrow> (Rejected (rejectAdapted (errorPredicates c) (projl r)), calls)
              | [] \<Rightarrow>
                  (let txIds = map projr txResults
                   in (Resolved txIds,
                       calls @ (case txIds of
                                  [] \<Rightarrow> []
                                | t # _ \<Rightarrow> snd (displayTransactionId c txStatus t))))))"

text \<open>
  \<^verbatim>\<open>consolidateIfRequired\<close> runs detached (\<^verbatim>\<open>.catch(console.error)\<close>) and its
  result is discarded by the operations below: only the calls it makes are kept.
\<close>

definition consolidateIfRequired_calls :: "AlphClient \<Rightarrow> User \<Rightarrow> call list" where
  "consolidateIfRequired_calls c user =
     (let userWallet = getUserWallet c user;
          mempool = Some (considerMempool (botConfig c))
      in GetUserWallet (user_id user)
         # GetAddressesAddressBalance (Some (wallet_address userWallet)) mempool
         # (case getAddressesAddressBalance (nodeProvider c) (Some (wallet_address userWallet)) mempool of
              Inl _ \<Rightarrow> []
            | Inr addressBalance \<Rightarrow>
                if utxoNum addressBalance < nbUTXOBeforeConsolidation (botConfig c) then []
                else snd (sweepWalletFromUserTo c userWallet (wallet_address userWallet) False)))"

subsection \<open>\<^verbatim>\<open>registerUser\<close>\<close>

text \<open>The body run under the registration mutex; the state is the user store.\<close>

definition registerUser :: "AlphClient \<Rightarrow> UserStore \<Rightarrow> User \<Rightarrow> (error + User) \<times> UserStore" where
  "registerUser c s newUser =
     (if existsBy s (telegramId newUser) then (Inl USER_ALREADY_REGISTERED, s)
      else (case save s newUser of
              (userWithId, s1) \<Rightarrow>
                (case save s1 (userWithId\<lparr>user_address := Some (deriveUserAddress c userWithId)\<rparr>) of
                   (u, s2) \<Rightarrow> (Inr u, s2))))"

subsection \<open>\<^verbatim>\<open>sendAmountToAddressFrom\<close>\<close>

text \<open>
  One output of a transfer: the amount itself for the native asset, else
  \<^verbatim>\<open>DUST_AMOUNT\<close> and a token entry.
\<close>

definition transferOutput :: "Library \<Rightarrow> string option \<Rightarrow> TokenAmount \<Rightarrow> Destination" where
  "transferOutput L addr ta =
     \<lparr>dest_address = addr,
      attoAlphAmount = (if isALPH L (token ta) then amount ta else DUST_AMOUNT L),
      tokens = (if isALPH L (token ta) then [] else [(token_id (token ta), amount ta)])\<rparr>"

definition sendAmountToAddressFrom ::
  "AlphClient \<Rightarrow> User \<Rightarrow> TokenAmount \<Rightarrow> string \<Rightarrow> bool \<Rightarrow> string task" where
  "sendAmountToAddressFrom c user tokenAmount destinationAddress txStatus =
     (if \<not> isValidAddress (library c) destinationAddress
      then (Rejected (InvalidAddressError destinationAddress), [])
      else if isALPH (library c) (token tokenAmount)
              \<and> amountAsNumber (library c) tokenAmount
                  \<le> strictMinimalWithdrawalAmount (operatorConfig c)
      then (Rejected (TooSmallALPHWithdrawalError tokenAmount), [])
      else
        andThen (derivedWallet c user) (\<lambda>userWallet.
          (case (if 0 < fees (operatorConfig c) then
                   (case substractAndGetPercentage tokenAmount (fees (operatorConfig c)) of
                      (tokenAmountOperatorFee, remaining) \<Rightarrow>
                        ([transferOutput (library c)
                            (lookup_index (addressesByGroup (operatorConfig c))
                               (wallet_group userWallet))
                            tokenAmountOperatorFee],
                         remaining))
                 else ([], tokenAmount)) of
             (feeDestinations, tokenAmount') \<Rightarrow>
               andThen (submitTransfer c userWallet
                          (feeDestinations
                           @ [transferOutput (library c) (Some destinationAddress) tokenAmount']))
                 (\<lambda>txId.
               andThen (displayTransactionId c txStatus txId) (\<lambda>_.
               andThen (awaitConfirmation c txId (nbConfirmationsExternalTransfer (botConfig c)))
                 (\<lambda>_. (Resolved txId, consolidateIfRequired_calls c user)))))))"

subsection \<open>\<^verbatim>\<open>takeFeesAndSweepWalletFromUserTo\<close>\<close>

text \<open>
  Stage 1, the body of \<^verbatim>\<open>if (this.operatorConfig.fees > 0)\<close>. Reading element 0
  of an empty array gives \<^verbatim>\<open>undefined\<close>, and the method call or field read on it
  raises a \<^verbatim>\<open>TypeError\<close>. The native amount of the output is taken from
  \<^verbatim>\<open>operatorFeesTokenAmount.filter(t => t.token.isALPH)[0]\<close>, where the method is
  named but not called: the test holds for every entry.
\<close>

definition takeOperatorFees :: "AlphClient \<Rightarrow> User \<Rightarrow> Wallet \<Rightarrow> bool \<Rightarrow> unit task" where
  "takeOperatorFees c user userWallet txStatus =
     (let operatorFeesAddress =
            lookup_index (addressesByGroup (operatorConfig c)) (wallet_group userWallet)
      in andThen (getUserBalance c user None) (\<lambda>userBalance.
           case filter (\<lambda>u. isALPH (library c) (token u)) userBalance of
             [] \<Rightarrow> (Rejected UncaughtTypeError, [])
           | userBalanceAlph # _ \<Rightarrow>
               if amountAsNumber (library c) userBalanceAlph
                    \<le> strictMinimalWithdrawalAllAmount (operatorConfig c)
               then (Rejected (TooSmallALPHWithdrawalError userBalanceAlph), [])
               else
                 (let operatorFeesTokenAmount =
                        map (\<lambda>t. fst (substractAndGetPercentage t (fees (operatorConfig c))))
                          userBalance
                  in case filter (\<lambda>t. True) operatorFeesTokenAmount of
                       [] \<Rightarrow> (Rejected UncaughtTypeError, [])
                     | firstFee # _ \<Rightarrow>
                         andThen (submitTransfer c userWallet
                                    [\<lparr>dest_address = operatorFeesAddress,
                                      attoAlphAmount = amount firstFee,
                                      tokens = map (\<lambda>t. (token_id (token t), amount t))
                                                 (filter (\<lambda>t. \<not> isALPH (library c) (token t))
                                                    operatorFeesTokenAmount)\<rparr>])
                           (\<lambda>txId.
                         andThen (displayTransactionId c txStatus txId) (\<lambda>_.
                           awaitConfirmation c txId
                             (nbConfirmationsBetweenMultipleStepsTransactions (botConfig c)))))))"

definition takeFeesAndSweepWalletFromUserTo ::
  "AlphClient \<Rightarrow> User \<Rightarrow> string \<Rightarrow> bool \<Rightarrow> string task" where
  "takeFeesAndSweepWalletFromUserTo c user destinationAddress txStatus =
     (if \<not> isValidAddress (library c) destinationAddress
      then (Rejected (InvalidAddressError destinationAddress), [])
      else
        andThen (derivedWallet c user) (\<lambda>userWallet.
        andThen (if 0 < fees (operatorConfig c) then takeOperatorFees c user userWallet txStatus
                 else (Resolved (), [])) (\<lambda>_.
        andThen (Resolved (), if txStatus then [StatusNextStep] else []) (\<lambda>_.
        andThen (sweepWalletFromUserTo c userWallet destinationAddress txStatus) (\<lambda>sweepAllTx.
          case sweepAllTx of
            [] \<Rightarrow> (Resolved '''', [])
          | t # _ \<Rightarrow>
              andThen (awaitConfirmation c t (nbConfirmationsExternalTransfer (botConfig c)))
                (\<lambda>_. (Resolved t, [])))))))"

section \<open>Address syntax (\<^verbatim>\<open>isAddressValid\<close>)\<close>

text \<open>
  The earlier variant of the client validates an address itself:
  \<^verbatim>\<open>!!address && /^[1-9A-HJ-NP-Za-km-z]+$/.test(address) &&
  bs58.decode(address).slice(1).length >= 32\<close>. Base-58 decoding gives one zero byte for
  each leading \<^verbatim>\<open>1\<close>, followed by the big-endian bytes of the number the digits
  denote.
\<close>

definition base58_alphabet :: string where
  "base58_alphabet = ''123456789ABCDEFGHJKLMNPQRSTUVWXYZabcdefghijkmnopqrstuvwxyz''"

fun index_from :: "int \<Rightarrow> char \<Rightarrow> string \<Rightarrow> int" where
  "index_from i ch [] = i"
| "index_from i ch (x # xs) = (if x = ch then i else index_from (i + 1) ch xs)"

function byte_length :: "int \<Rightarrow> nat" where
  "byte_length n = (if n \<le> 0 then 0 else Suc (byte_length (n div 256)))"
  by pat_completeness auto
termination
  by (relation "measure nat") auto

definition bs58_decode_length :: "string \<Rightarrow> nat" where
  "bs58_decode_length a =
     length (takeWhile (\<lambda>ch. ch = CHR ''1'') a)
     + byte_length (foldl (\<lambda>acc ch. acc * 58 + index_from 0 ch base58_alphabet) 0 a)"

definition isAddressValid :: "string \<Rightarrow> bool" where
  "isAddressValid a =
     (a \<noteq> [] \<and> list_all (\<lambda>ch. ch \<in> set base58_alphabet) a \<and> 32 \<le> bs58_decode_length a - 1)"

section \<open>A concrete client\<close>

text \<open>
  A client for concrete runs: a registry that knows the native asset and one token, a
  node that answers balance queries by address, an operator fee of 10 percent. The
  parameters of the library are stand-ins: addresses are validated by
  \<^const>\<open>isAddressValid\<close>, and \<^verbatim>\<open>amountAsNumber\<close> divides exactly where the code
  computes on floating-point numbers, so the runs below use amounts far from the
  thresholds. The destination of the runs is a pay-to-public-key-hash address of 33
  decoded bytes.
\<close>

definition demo_destination :: string where
  "demo_destination = ''1DrDyTr9RpRsQnDnXo2YRiPzPW4ooHX5LLoqXrqfMrpQH''"

definition ALPH :: Token where
  "ALPH = \<lparr>token_id = ''0000'', symbol = ''ALPH'', decimals = 18\<rparr>"

definition AYIN :: Token where
  "AYIN = \<lparr>token_id = ''1a28'', symbol = ''AYIN'', decimals = 18\<rparr>"

definition demo_tokenManager :: TokenManager where
  "demo_tokenManager = \<lparr>
     getTokenBySymbol = (\<lambda>s. if s = ''ALPH'' then Inr ALPH else Inl (ErrorObj ''no such token'')),
     getTokenAmountFromIdAmount =
       (\<lambda>i a. if i = ''1a28'' then Inr \<lparr>amount = a, token = AYIN\<rparr>
               else Inl (ErrorObj ''no such token'')) \<rparr>"

definition demo_nodeProvider :: NodeProvider where
  "demo_nodeProvider = \<lparr>
     getAddressesAddressBalance =
       (\<lambda>a m. if a = Some ''1Rich''
               then Inr \<lparr>balance = 5000000000000000019,
                         tokenBalances = Some [(''1a28'', 250), (''ffff'', 7)], utxoNum = 3\<rparr>
               else Inr \<lparr>balance = 1, tokenBalances = None, utxoNum = 1\<rparr>),
     postTransactionsSweepAddressBuild = (\<lambda>k a. Inr [''unsigned'']),
     signAndSubmitTransferTx = (\<lambda>a d. Inr ''tx1''),
     signAndSubmitUnsignedTx = (\<lambda>a u. Inr ''tx2''),
     waitForTxConfirmation = (\<lambda>t n. Some (Inr ())) \<rparr>"

definition demo_library :: Library where
  "demo_library = \<lparr>
     isValidAddress = isAddressValid,
     DUST_AMOUNT = 1000000000000000,
     deriveHDWallet =
       (\<lambda>i. if i = Some 1
            then \<lparr>wallet_address = ''1Rich'', publicKey = ''02ab'', wallet_group = 1\<rparr>
            else \<lparr>wallet_address = ''1Poor'', publicKey = ''03cd'', wallet_group = 0\<rparr>),
     isALPH = (\<lambda>t. token_id t = ''0000''),
     amountAsNumber = (\<lambda>t. real_of_int (amount t) / 10 ^ decimals (token t)) \<rparr>"

definition demo_client :: AlphClient where
  "demo_client = \<lparr>
     nodeProvider = demo_nodeProvider,
     tokenManager = demo_tokenManager,
     operatorConfig = \<lparr>fees = 10, addressesByGroup = [''1Fee0'', ''1Fee1'', ''1Fee2'', ''1Fee3''],
                       strictMinimalWithdrawalAmount = 1 / 20,
                       strictMinimalWithdrawalAllAmount = 1\<rparr>,
     botConfig = \<lparr>nbConfirmationsInternalTransfer = 1, nbConfirmationsExternalTransfer = 2,
                  nbConfirmationsBetweenMultipleStepsTransactions = 1,
                  nbUTXOBeforeConsolidation = 50, considerMempool = False, isOnDevNet = False\<rparr>,
     library = demo_library,
     errorPredicates = no_match \<rparr>"

definition demo_user :: "nat \<Rightarrow> string \<Rightarrow> User" where
  "demo_user i a =
     \<lparr>user_id = Some i, telegramId = int i, telegramUsername = ''user'', user_address = Some a\<rparr>"

text \<open>Eleven registered users, each holding one unit of the native asset.\<close>

definition demo_store :: UserStore where
  "demo_store = \<lparr>rows = map (\<lambda>i. demo_user i ''1Poor'') [1..<12], next_id = 12\<rparr>"

section \<open>Auxiliary facts\<close>

lemma else_if_False [simp]: "else_if (Inr False) v rest = rest"
  by (simp add: else_if_def)

lemma else_if_True [simp]: "else_if (Inr True) v rest = Inr v"
  by (simp add: else_if_def)

lemma else_if_thrown [simp]: "else_if (Inl t) v rest = Inl t"
  by (simp add: else_if_def)

lemma else_if_cases: "else_if t v rest = Inr y \<Longrightarrow> y = v \<or> rest = Inr y"
  by (auto simp add: else_if_def split: sum.splits if_splits)

lemma adaptError_range:
  assumes "adaptError P e = Inr y"
  shows "y \<in> {NetworkError e, AlphApiIOError e, AlphAmountOverflowError e, NotEnoughFundsError e,
              NotEnoughBalanceForFeeError e, NotEnoughApprovedBalanceForAddressError e,
              NotEnoughALPHForTransactionOutputError e,
              NotEnoughALPHForALPHAndTokenChangeOutputError e, Unclassified e}"
  using assms unfolding adaptError_def
  by (auto dest!: else_if_cases)

lemma rejectAdapted_not_TooSmall: "rejectAdapted P e \<noteq> TooSmallALPHWithdrawalError x"
proof (cases "adaptError P e")
  case (Inl t)
  then show ?thesis by (cases t) (simp add: rejectAdapted_def)
next
  case (Inr y)
  from adaptError_range [OF Inr] Inr show ?thesis
    by (auto simp add: rejectAdapted_def)
qed

lemma fee_floor: "a * p div 100 = \<lfloor>real_of_int a * real_of_int p / 100\<rfloor>"
  by (metis floor_divide_of_int_eq of_int_mult of_int_numeral)

lemma andThen_Resolved [simp]: "andThen (Resolved x, l) f = (fst (f x), l @ snd (f x))"
  by (simp add: andThen_def split: prod.splits)

lemma andThen_Rejected [simp]: "andThen (Rejected e, l) f = (Rejected e, l)"
  by (simp add: andThen_def)

lemma andThen_Pending [simp]: "andThen (Pending, l) f = (Pending, l)"
  by (simp add: andThen_def)

lemma fst_andThen:
  "fst (andThen m f) = (case fst m of Resolved x \<Rightarrow> fst (f x) | Rejected e \<Rightarrow> Rejected e
                         | Pending \<Rightarrow> Pending)"
  by (cases m) (simp split: outcome.splits)

lemma filter_snd_andThen:
  "filter P (snd (andThen m f))
   = filter P (snd m) @ (case fst m of Resolved x \<Rightarrow> filter P (snd (f x)) | _ \<Rightarrow> [])"
  by (cases m) (simp split: outcome.splits)

subsection \<open>Where transfers are submitted\<close>

lemma transfers_submitTransfer:
  "filter isTransferCall (snd (submitTransfer c w ds)) = [SignAndSubmitTransferTx (wallet_address w) ds]"
  by (simp add: submitTransfer_def)

lemma transfers_displayTransactionId:
  "filter isTransferCall (snd (displayTransactionId c st t)) = []"
  by (simp add: displayTransactionId_def)

lemma transfers_awaitConfirmation:
  "filter isTransferCall (snd (awaitConfirmation c t n)) = []"
  by (simp add: awaitConfirmation_def)

lemma transfers_map_unsigned:
  "filter isTransferCall (map (SignAndSubmitUnsignedTx a) xs) = []"
  by (induction xs) simp_all

lemma transfers_sweepWalletFromUserTo:
  "filter isTransferCall (snd (sweepWalletFromUserTo c w d st)) = []"
  by (simp add: sweepWalletFromUserTo_def Let_def transfers_map_unsigned
      transfers_displayTransactionId split: sum.splits list.splits)

subsection \<open>The shape of a user balance\<close>

lemma snd_getUserBalance:
  "snd (getUserBalance c user tok) = [GetAddressesAddressBalance (user_address user) None]"
  by (simp add: getUserBalance_def Let_def)

lemma recognised_tokens_pairs:
  "map projr (filter (\<lambda>t. \<not> isl t) (map (\<lambda>(i, a). g i a) xs))
   = concat (map (\<lambda>(i, a). case g i a of Inl _ \<Rightarrow> [] | Inr v \<Rightarrow> [v]) xs)"
  by (induction xs) (auto split: sum.splits)

lemma convertAddressBalanceToUserBalance_entries:
  assumes "convertAddressBalanceToUserBalance c b = Inr ub"
  shows "\<exists>alphToken.
           getTokenBySymbol (tokenManager c) ''ALPH'' = Inr alphToken
         \<and> ub = \<lparr>amount = balance b, token = alphToken\<rparr>
                # concat (map (\<lambda>(i, a). case getTokenAmountFromIdAmount (tokenManager c) i a of
                                          Inl _ \<Rightarrow> [] | Inr ta \<Rightarrow> [ta])
                           (case tokenBalances b of None \<Rightarrow> [] | Some held \<Rightarrow> held))"
proof (cases "getTokenBySymbol (tokenManager c) ''ALPH''")
  case (Inl e)
  with assms show ?thesis by (simp add: convertAddressBalanceToUserBalance_def)
next
  case (Inr alphToken)
  show ?thesis
  proof (cases "tokenBalances b")
    case None
    with assms Inr show ?thesis by (simp add: convertAddressBalanceToUserBalance_def)
  next
    case (Some held)
    with assms Inr show ?thesis
      by (auto simp add: convertAddressBalanceToUserBalance_def Let_def recognised_tokens_pairs
          split: if_splits)
  qed
qed

lemma getUserBalance_resolved:
  assumes "getUserBalance c user tok = (Resolved ub, l)"
  shows "\<exists>b alphToken.
           getAddressesAddressBalance (nodeProvider c) (user_address user) None = Inr b
         \<and> getTokenBySymbol (tokenManager c) ''ALPH'' = Inr alphToken
         \<and> ub = (let unfiltered =
                        \<lparr>amount = balance b, token = alphToken\<rparr>
                        # concat (map (\<lambda>(i, a). case getTokenAmountFromIdAmount (tokenManager c) i a of
                                                  Inl _ \<Rightarrow> [] | Inr ta \<Rightarrow> [ta])
                                   (case tokenBalances b of None \<Rightarrow> [] | Some held \<Rightarrow> held))
                 in case tok of
                      None \<Rightarrow> unfiltered
                    | Some t \<Rightarrow> filter (\<lambda>x. token_id (token x) = token_id t) unfiltered)"
proof (cases "getAddressesAddressBalance (nodeProvider c) (user_address user) None")
  case (Inl e)
  with assms show ?thesis by (simp add: getUserBalance_def Let_def split: if_splits)
next
  case (Inr b)
  show ?thesis
  proof (cases "convertAddressBalanceToUserBalance c b")
    case (Inl e)
    with assms Inr show ?thesis by (simp add: getUserBalance_def Let_def split: if_splits)
  next
    case conv: (Inr full)
    from convertAddressBalanceToUserBalance_entries [OF conv] obtain alphToken where
      a: "getTokenBySymbol (tokenManager c) ''ALPH'' = Inr alphToken" and
      f: "full = \<lparr>amount = balance b, token = alphToken\<rparr>
                # concat (map (\<lambda>(i, a). case getTokenAmountFromIdAmount (tokenManager c) i a of
                                          Inl _ \<Rightarrow> [] | Inr ta \<Rightarrow> [ta])
                           (case tokenBalances b of None \<Rightarrow> [] | Some held \<Rightarrow> held))"
      by blast
    from assms Inr conv have "ub = (case tok of None \<Rightarrow> full
                                     | Some t \<Rightarrow> filter (\<lambda>x. token_id (token x) = token_id t) full)"
      by (simp add: getUserBalance_def Let_def)
    with Inr a f show ?thesis by (cases tok) (simp_all add: Let_def)
  qed
qed

lemma convertAddressBalanceToUserBalance_known:
  assumes "getTokenBySymbol (tokenManager c) ''ALPH'' = Inr alphToken"
  shows "convertAddressBalanceToUserBalance c b
         = Inr (\<lparr>amount = balance b, token = alphToken\<rparr>
                # concat (map (\<lambda>(i, a). case getTokenAmountFromIdAmount (tokenManager c) i a of
                                          Inl _ \<Rightarrow> [] | Inr ta \<Rightarrow> [ta])
                           (case tokenBalances b of None \<Rightarrow> [] | Some held \<Rightarrow> held)))"
  using assms
  by (cases "tokenBalances b")
    (simp_all add: convertAddressBalanceToUserBalance_def Let_def recognised_tokens_pairs)

lemma getUserBalance_resolves:
  assumes "getAddressesAddressBalance (nodeProvider c) (user_address user) None = Inr b"
      and "getTokenBySymbol (tokenManager c) ''ALPH'' = Inr alphToken"
  shows "getUserBalance c user tok
         = (Resolved (let unfiltered =
                            \<lparr>amount = balance b, token = alphToken\<rparr>
                            # concat (map (\<lambda>(i, a). case getTokenAmountFromIdAmount (tokenManager c) i a of
                                                      Inl _ \<Rightarrow> [] | Inr ta \<Rightarrow> [ta])
                                       (case tokenBalances b of None \<Rightarrow> [] | Some held \<Rightarrow> held))
                     in case tok of
                          None \<Rightarrow> unfiltered
                        | Some t \<Rightarrow> filter (\<lambda>x. token_id (token x) = token_id t) unfiltered),
            [GetAddressesAddressBalance (user_address user) None])"
  using assms convertAddressBalanceToUserBalance_known [OF assms(2), of b]
  by (cases tok) (simp_all add: getUserBalance_def Let_def)

lemma takeFees_invalid_address:
  "\<not> isValidAddress (library c) destinationAddress \<Longrightarrow>
   takeFeesAndSweepWalletFromUserTo c user destinationAddress txStatus
   = (Rejected (InvalidAddressError destinationAddress), [])"
  by (simp add: takeFeesAndSweepWalletFromUserTo_def)

lemma fee_tokens:
  "map (\<lambda>t. (token_id (token t), amount t))
     (filter (\<lambda>t. \<not> isALPH L (token t)) (map (\<lambda>t. fst (substractAndGetPercentage t p)) ub))
   = map (\<lambda>t. (token_id (token t), amount t * p div 100))
       (filter (\<lambda>t. \<not> isALPH L (token t)) ub)"
  by (induction ub) (simp_all add: substractAndGetPercentage_def Let_def)

subsection \<open>The user store\<close>

lemma save_fst:
  "fst (save s u) = u\<lparr>user_id := Some (case user_id u of None \<Rightarrow> next_id s | Some i \<Rightarrow> i)\<rparr>"
  by (simp add: save_def Let_def split: option.splits)

lemma save_member: "fst (save s u) \<in> set (rows (snd (save s u)))"
proof (cases "user_id u")
  case None
  then show ?thesis by (simp add: save_def Let_def)
next
  case (Some i)
  show ?thesis
  proof (cases "list_ex (\<lambda>r. user_id r = Some i) (rows s)")
    case True
    then obtain r where "r \<in> set (rows s)" "user_id r = Some i"
      by (auto simp add: list_ex_iff)
    then have "u \<in> (\<lambda>r. if user_id r = Some i then u else r) ` set (rows s)"
      by force
    with Some True show ?thesis by (simp add: save_def)
  next
    case False
    with Some show ?thesis by (simp add: save_def)
  qed
qed

lemma existsBy_member: "u \<in> set (rows s) \<Longrightarrow> existsBy s (telegramId u)"
  by (auto simp add: existsBy_def list_ex_iff)

lemma registerUser_registered:
  "existsBy s (telegramId u) \<Longrightarrow> registerUser c s u = (Inl USER_ALREADY_REGISTERED, s)"
  by (simp add: registerUser_def)

section \<open>Error translation\<close>

text \<open>
  C1. \<^verbatim>\<open>adaptError\<close> is claimed to return the original error unchanged, without
  raising, when no pattern matches. On the code, an \<^verbatim>\<open>Error\<close> whose message is
  neither the network, the I/O, the overflow nor the not-enough-funds pattern makes
  \<^verbatim>\<open>alphErrorIsNotEnoughFundsError\<close> read \<^verbatim>\<open>length\<close> of \<^verbatim>\<open>null\<close>:
  \<^verbatim>\<open>adaptError\<close> raises a \<^verbatim>\<open>TypeError\<close>, whatever the four later predicates
  would have answered.
\<close>

theorem adaptError_throws_on_unmatched:
  assumes "m \<noteq> ''fetch failed''"
    and "alphErrorIsIOFailureError P (ErrorObj m) = Inr False"
    and "alphErrorIsAlphAmountOverflowError P (ErrorObj m) = Inr False"
    and "match_notEnoughFundsRegex m = None"
  shows "adaptError P (ErrorObj m) = Inl TypeError"
  using assms
  by (simp add: adaptError_def alphErrorIsNetworkError_def alphErrorIsNotEnoughFundsError_def)

theorem adaptError_throws_on_unmatched_witness:
  "adaptError no_match (ErrorObj ''socket hang up'') = Inl TypeError"
proof -
  have 1: "''socket hang up'' \<noteq> ''fetch failed''" by simp
  have 2: "alphErrorIsIOFailureError no_match (ErrorObj ''socket hang up'') = Inr False"
    by (simp add: no_match_def)
  have 3: "alphErrorIsAlphAmountOverflowError no_match (ErrorObj ''socket hang up'') = Inr False"
    by (simp add: no_match_def)
  have 4: "match_notEnoughFundsRegex ''socket hang up'' = None"
    by (simp add: match_notEnoughFundsRegex_def)
  show ?thesis by (rule adaptError_throws_on_unmatched [OF 1 2 3 4])
qed

section \<open>The total over all users\<close>

text \<open>
  C2. \<^verbatim>\<open>getTotalTokenAmount\<close> is claimed to return the sum of the balances of all
  registered users. With eleven users the window is 2, the loop variable takes the
  values 0, 2, 4, 6, 8, 10 and the store is asked for the rows from \<open>2 \<times> i\<close> on: rows
  0-1, 4-5 and 8-9 are read, the other five users are never visited, and the total is
  6 where the sum over all users is 11.
\<close>

theorem getTotalTokenAmount_misses_users:
  "count_users demo_store = 11
   \<and> fst (getTotalTokenAmount demo_client demo_store) = Resolved [\<lparr>amount = 6, token = ALPH\<rparr>]
   \<and> fst (totalTokenAmount_unbatched demo_client demo_store)
       = Resolved [\<lparr>amount = 11, token = ALPH\<rparr>]"
  by code_simp

section \<open>The fee stage of a full withdrawal\<close>

text \<open>
  C3, as stated, does not hold for every held asset: the fee stage works on the balance
  that \<^verbatim>\<open>getUserBalance\<close> returns, from which the assets the registry does not
  recognise have been dropped. A user holding 7 units of the unrecognised asset
  \<^verbatim>\<open>ffff\<close> pays a fee on the native asset and on the recognised token only.
\<close>

theorem takeFees_no_fee_for_unrecognised:
  "0 < fees (operatorConfig demo_client)
 \<and> getAddressesAddressBalance (nodeProvider demo_client) (user_address (demo_user 1 ''1Rich'')) None
     = Inr \<lparr>balance = 5000000000000000019,
            tokenBalances = Some [(''1a28'', 250), (''ffff'', 7)], utxoNum = 3\<rparr>
 \<and> getTokenAmountFromIdAmount (tokenManager demo_client) ''ffff'' 7 = Inl (ErrorObj ''no such token'')
 \<and> strictMinimalWithdrawalAllAmount (operatorConfig demo_client)
     < amountAsNumber (library demo_client) \<lparr>amount = 5000000000000000019, token = ALPH\<rparr>
 \<and> isValidAddress (library demo_client) demo_destination
 \<and> filter isTransferCall
       (snd (takeFeesAndSweepWalletFromUserTo demo_client (demo_user 1 ''1Rich'')
               demo_destination False))
     = [SignAndSubmitTransferTx ''1Rich''
          [\<lparr>dest_address = Some ''1Fee1'', attoAlphAmount = 500000000000000001,
            tokens = [(''1a28'', 25)]\<rparr>]]"
  by code_simp

text \<open>
  C3, amended. With a fee percentage \<open>p > 0\<close> and a native balance strictly above the
  sweep-all threshold, \<^verbatim>\<open>takeFeesAndSweepWalletFromUserTo\<close> submits exactly one
  transfer: to the fee address of the wallet's group, with the native amount
  \<open>\<lfloor>nativeBalance \<times> p / 100\<rfloor>\<close> and one token entry \<open>\<lfloor>amount \<times> p / 100\<rfloor>\<close> for each
  non-native held asset that the token registry recognises; a held asset that the
  registry does not recognise gets no entry. The destination is valid, the node answers
  the balance query with \<open>b\<close>, and the registry's token for \<^verbatim>\<open>"ALPH"\<close> is native.
\<close>

theorem takeFees_fee_transaction:
  assumes valid: "isValidAddress (library c) destinationAddress"
      and fee: "0 < fees (operatorConfig c)"
      and node: "getAddressesAddressBalance (nodeProvider c) (user_address user) None = Inr b"
      and reg: "getTokenBySymbol (tokenManager c) ''ALPH'' = Inr alphToken"
      and native: "isALPH (library c) alphToken"
      and above: "strictMinimalWithdrawalAllAmount (operatorConfig c)
                    < amountAsNumber (library c) \<lparr>amount = balance b, token = alphToken\<rparr>"
  shows "let recognised =
               concat (map (\<lambda>(i, a). case getTokenAmountFromIdAmount (tokenManager c) i a of
                                        Inl _ \<Rightarrow> [] | Inr ta \<Rightarrow> [ta])
                         (case tokenBalances b of None \<Rightarrow> [] | Some held \<Rightarrow> held))
         in filter isTransferCall
              (snd (takeFeesAndSweepWalletFromUserTo c user destinationAddress txStatus))
            = [SignAndSubmitTransferTx (wallet_address (getUserWallet c user))
                 [\<lparr>dest_address = lookup_index (addressesByGroup (operatorConfig c))
                                    (wallet_group (getUserWallet c user)),
                   attoAlphAmount =
                     \<lfloor>real_of_int (balance b) * real_of_int (fees (operatorConfig c)) / 100\<rfloor>,
                   tokens =
                     map (\<lambda>t. (token_id (token t),
                                \<lfloor>real_of_int (amount t) * real_of_int (fees (operatorConfig c)) / 100\<rfloor>))
                       (filter (\<lambda>t. \<not> isALPH (library c) (token t)) recognised)\<rparr>]]"
proof -
  let ?p = "fees (operatorConfig c)"
  let ?w = "getUserWallet c user"
  let ?native = "\<lparr>amount = balance b, token = alphToken\<rparr>"
  define recognised where
    "recognised = concat (map (\<lambda>(i, a). case getTokenAmountFromIdAmount (tokenManager c) i a of
                                          Inl _ \<Rightarrow> [] | Inr ta \<Rightarrow> [ta])
                           (case tokenBalances b of None \<Rightarrow> [] | Some held \<Rightarrow> held))"
  define userBalance where "userBalance = ?native # recognised"
  define l where "l = [GetAddressesAddressBalance (user_address user) None]"
  have bal: "getUserBalance c user None = (Resolved userBalance, l)"
    using getUserBalance_resolves [OF node reg, of None]
    by (simp add: userBalance_def recognised_def l_def Let_def)
  let ?dest = "\<lparr>dest_address = lookup_index (addressesByGroup (operatorConfig c)) (wallet_group ?w),
                attoAlphAmount = balance b * ?p div 100,
                tokens = map (\<lambda>t. (token_id (token t), amount t * ?p div 100))
                           (filter (\<lambda>t. \<not> isALPH (library c) (token t)) userBalance)\<rparr>"
  have stage: "takeOperatorFees c user ?w txStatus
               = andThen (getUserBalance c user None) (\<lambda>_.
                   andThen (submitTransfer c ?w [?dest]) (\<lambda>txId.
                   andThen (displayTransactionId c txStatus txId) (\<lambda>_.
                     awaitConfirmation c txId
                       (nbConfirmationsBetweenMultipleStepsTransactions (botConfig c)))))"
    using bal native above fee_tokens [of "library c" ?p userBalance]
    by (simp add: takeOperatorFees_def Let_def userBalance_def substractAndGetPercentage_def)
  have "filter isTransferCall (snd (takeOperatorFees c user ?w txStatus))
        = [SignAndSubmitTransferTx (wallet_address ?w) [?dest]]"
    unfolding stage
    by (simp add: filter_snd_andThen bal l_def transfers_submitTransfer
        transfers_displayTransactionId transfers_awaitConfirmation split: outcome.splits)
  then have "filter isTransferCall
               (snd (takeFeesAndSweepWalletFromUserTo c user destinationAddress txStatus))
             = [SignAndSubmitTransferTx (wallet_address ?w) [?dest]]"
    using valid fee
    by (simp add: takeFeesAndSweepWalletFromUserTo_def derivedWallet_def filter_snd_andThen
        transfers_sweepWalletFromUserTo transfers_awaitConfirmation
        split: outcome.splits list.splits)
  moreover have "filter (\<lambda>t. \<not> isALPH (library c) (token t)) userBalance
                 = filter (\<lambda>t. \<not> isALPH (library c) (token t)) recognised"
    using native by (simp add: userBalance_def)
  ultimately show ?thesis
    unfolding Let_def recognised_def [symmetric] by (simp add: fee_floor)
qed

theorem takeFees_fee_transaction_witness:
  "filter isTransferCall
     (snd (takeFeesAndSweepWalletFromUserTo demo_client (demo_user 1 ''1Rich'')
             demo_destination True))
   = [SignAndSubmitTransferTx ''1Rich''
        [\<lparr>dest_address = Some ''1Fee1'', attoAlphAmount = 500000000000000001,
          tokens = [(''1a28'', 25)]\<rparr>]]"
proof -
  let ?b = "\<lparr>balance = 5000000000000000019,
             tokenBalances = Some [(''1a28'', 250), (''ffff'', 7)], utxoNum = 3\<rparr>"
  let ?recognised =
    "concat (map (\<lambda>(i, a). case getTokenAmountFromIdAmount (tokenManager demo_client) i a of
                             Inl _ \<Rightarrow> [] | Inr ta \<Rightarrow> [ta])
              (case tokenBalances ?b of None \<Rightarrow> [] | Some held \<Rightarrow> held))"
  have valid: "isValidAddress (library demo_client) demo_destination"
    by code_simp
  have fee: "0 < fees (operatorConfig demo_client)"
    by (simp add: demo_client_def)
  have node: "getAddressesAddressBalance (nodeProvider demo_client)
                (user_address (demo_user 1 ''1Rich'')) None = Inr ?b"
    by (simp add: demo_client_def demo_nodeProvider_def demo_user_def)
  have reg: "getTokenBySymbol (tokenManager demo_client) ''ALPH'' = Inr ALPH"
    by (simp add: demo_client_def demo_tokenManager_def)
  have native: "isALPH (library demo_client) ALPH"
    by (simp add: demo_client_def demo_library_def ALPH_def)
  have above: "strictMinimalWithdrawalAllAmount (operatorConfig demo_client)
                 < amountAsNumber (library demo_client) \<lparr>amount = balance ?b, token = ALPH\<rparr>"
    by (simp add: demo_client_def demo_library_def ALPH_def)
  have "filter isTransferCall
          (snd (takeFeesAndSweepWalletFromUserTo demo_client (demo_user 1 ''1Rich'')
                  demo_destination True))
        = [SignAndSubmitTransferTx (wallet_address (getUserWallet demo_client (demo_user 1 ''1Rich'')))
             [\<lparr>dest_address = lookup_index (addressesByGroup (operatorConfig demo_client))
                                (wallet_group (getUserWallet demo_client (demo_user 1 ''1Rich''))),
               attoAlphAmount =
                 \<lfloor>real_of_int (balance ?b) * real_of_int (fees (operatorConfig demo_client)) / 100\<rfloor>,
               tokens =
                 map (\<lambda>t. (token_id (token t),
                            \<lfloor>real_of_int (amount t) * real_of_int (fees (operatorConfig demo_client)) / 100\<rfloor>))
                   (filter (\<lambda>t. \<not> isALPH (library demo_client) (token t)) ?recognised)\<rparr>]]"
    using takeFees_fee_transaction [OF valid fee node reg native above, of True]
    unfolding Let_def .
  moreover have "wallet_address (getUserWallet demo_client (demo_user 1 ''1Rich'')) = ''1Rich''"
    by (simp add: getUserWallet_def demo_client_def demo_library_def demo_user_def)
  moreover have "lookup_index (addressesByGroup (operatorConfig demo_client))
                   (wallet_group (getUserWallet demo_client (demo_user 1 ''1Rich''))) = Some ''1Fee1''"
    by (simp add: getUserWallet_def demo_client_def demo_library_def demo_user_def lookup_index_def)
  moreover have "\<lfloor>real_of_int (balance ?b) * real_of_int (fees (operatorConfig demo_client)) / 100\<rfloor>
                 = 500000000000000001"
    by (simp add: demo_client_def)
  moreover have "map (\<lambda>t. (token_id (token t),
                            \<lfloor>real_of_int (amount t) * real_of_int (fees (operatorConfig demo_client)) / 100\<rfloor>))
                   (filter (\<lambda>t. \<not> isALPH (library demo_client) (token t)) ?recognised)
                 = [(''1a28'', 25)]"
    by (simp add: demo_client_def demo_library_def demo_tokenManager_def ALPH_def AYIN_def)
  ultimately show ?thesis by simp
qed

section \<open>Percentage fees\<close>

text \<open>
  C4. For a non-negative amount and a percentage \<open>p\<close> between 0 and 100,
  \<^verbatim>\<open>substractAndGetPercentage(p)\<close> returns a fee \<open>f\<close> and leaves a remainder \<open>r\<close>
  with \<open>r \<ge> 0\<close> and \<open>f + r\<close> the original amount; the fee is the floor of
  \<open>amount \<times> p / 100\<close>, computed on integers.
\<close>

theorem substractAndGetPercentage_exact:
  assumes "0 \<le> amount t" and "0 \<le> p" and "p \<le> 100"
  shows "case substractAndGetPercentage t p of (f, r) \<Rightarrow>
           0 \<le> amount r \<and> amount f + amount r = amount t
         \<and> amount f = \<lfloor>real_of_int (amount t) * real_of_int p / 100\<rfloor>
         \<and> 0 \<le> amount f \<and> token f = token t \<and> token r = token t"
proof -
  let ?fee = "amount t * p div 100"
  have "amount t * p \<le> amount t * 100"
    using assms by (simp add: mult_left_mono)
  then have le: "?fee \<le> amount t"
    by (metis nonzero_mult_div_cancel_right zdiv_mono1 zero_less_numeral zero_neq_numeral)
  have nonneg: "0 \<le> ?fee"
    using assms by (simp add: pos_imp_zdiv_nonneg_iff)
  show ?thesis
    using le nonneg fee_floor [of "amount t" p]
    by (simp add: substractAndGetPercentage_def Let_def)
qed

theorem substractAndGetPercentage_exact_witness:
  "case substractAndGetPercentage
          \<lparr>amount = 1999, token = \<lparr>token_id = ''00'', symbol = ''ALPH'', decimals = 18\<rparr>\<rparr> 3
   of (f, r) \<Rightarrow>
           0 \<le> amount r
         \<and> amount f + amount r
             = amount \<lparr>amount = 1999, token = \<lparr>token_id = ''00'', symbol = ''ALPH'', decimals = 18\<rparr>\<rparr>
         \<and> amount f
             = \<lfloor>real_of_int (amount \<lparr>amount = 1999,
                   token = \<lparr>token_id = ''00'', symbol = ''ALPH'', decimals = 18\<rparr>\<rparr>) * real_of_int 3 / 100\<rfloor>
         \<and> 0 \<le> amount f
         \<and> token f = token \<lparr>amount = 1999, token = \<lparr>token_id = ''00'', symbol = ''ALPH'', decimals = 18\<rparr>\<rparr>
         \<and> token r = token \<lparr>amount = 1999, token = \<lparr>token_id = ''00'', symbol = ''ALPH'', decimals = 18\<rparr>\<rparr>"
proof -
  let ?t = "\<lparr>amount = 1999, token = \<lparr>token_id = ''00'', symbol = ''ALPH'', decimals = 18\<rparr>\<rparr>"
  have h1: "0 \<le> amount ?t" by simp
  have h2: "(0::int) \<le> 3" by simp
  have h3: "(3::int) \<le> 100" by simp
  show ?thesis by (rule substractAndGetPercentage_exact [OF h1 h2 h3])
qed

section \<open>Registration\<close>

text \<open>
  C5. If the identity already has a record, \<^verbatim>\<open>registerUser\<close> rejects with
  \<^verbatim>\<open>USER_ALREADY_REGISTERED\<close> and leaves the store as it was. Otherwise it returns
  the user with its assigned id and the address derived from that id, that record is in
  the store, and every later attempt for the same identity is rejected and leaves the
  store, hence the persisted address, unchanged.
\<close>

theorem registerUser_once:
  "(existsBy s (telegramId u) \<longrightarrow> registerUser c s u = (Inl USER_ALREADY_REGISTERED, s))
 \<and> (\<not> existsBy s (telegramId u) \<longrightarrow>
      (let assigned = (case user_id u of None \<Rightarrow> next_id s | Some i \<Rightarrow> i);
           registered = u\<lparr>user_id := Some assigned,
                          user_address := Some (wallet_address
                             (deriveHDWallet (library c) (Some assigned)))\<rparr>;
           s' = snd (registerUser c s u)
       in fst (registerUser c s u) = Inr registered
        \<and> registered \<in> set (rows s')
        \<and> (\<forall>again. telegramId again = telegramId u
             \<longrightarrow> registerUser c s' again = (Inl USER_ALREADY_REGISTERED, s'))))"
proof (intro conjI impI)
  assume "existsBy s (telegramId u)"
  then show "registerUser c s u = (Inl USER_ALREADY_REGISTERED, s)"
    by (rule registerUser_registered)
next
  assume fresh: "\<not> existsBy s (telegramId u)"
  define assigned where "assigned = (case user_id u of None \<Rightarrow> next_id s | Some i \<Rightarrow> i)"
  define userWithId where "userWithId = fst (save s u)"
  define s1 where "s1 = snd (save s u)"
  define registered where
    "registered = u\<lparr>user_id := Some assigned,
                    user_address := Some (wallet_address (deriveHDWallet (library c) (Some assigned)))\<rparr>"
  have uid: "userWithId = u\<lparr>user_id := Some assigned\<rparr>"
    by (simp add: userWithId_def assigned_def save_fst)
  then have reg: "userWithId\<lparr>user_address := Some (deriveUserAddress c userWithId)\<rparr> = registered"
    by (simp add: registered_def deriveUserAddress_def getUserWallet_def)
  have run: "registerUser c s u = (Inr (fst (save s1 registered)), snd (save s1 registered))"
    using fresh reg
    by (simp add: registerUser_def userWithId_def s1_def case_prod_beta)
  have fst_reg: "fst (save s1 registered) = registered"
    by (simp add: save_fst registered_def)
  have mem: "registered \<in> set (rows (snd (save s1 registered)))"
    using save_member [of s1 registered] by (simp add: fst_reg)
  have tid: "telegramId registered = telegramId u"
    by (simp add: registered_def)
  have again: "registerUser c (snd (save s1 registered)) again
               = (Inl USER_ALREADY_REGISTERED, snd (save s1 registered))"
    if "telegramId again = telegramId u" for again
    using existsBy_member [OF mem] that tid by (simp add: registerUser_registered)
  show "let assigned = (case user_id u of None \<Rightarrow> next_id s | Some i \<Rightarrow> i);
            registered = u\<lparr>user_id := Some assigned,
                           user_address := Some (wallet_address
                              (deriveHDWallet (library c) (Some assigned)))\<rparr>;
            s' = snd (registerUser c s u)
        in fst (registerUser c s u) = Inr registered
         \<and> registered \<in> set (rows s')
         \<and> (\<forall>again. telegramId again = telegramId u
              \<longrightarrow> registerUser c s' again = (Inl USER_ALREADY_REGISTERED, s'))"
    unfolding Let_def
    using run fst_reg mem again
    by (simp add: assigned_def registered_def)
qed

theorem registerUser_once_witness:
  "\<not> existsBy demo_store 77
 \<and> fst (registerUser demo_client demo_store
          \<lparr>user_id = None, telegramId = 77, telegramUsername = ''new'', user_address = None\<rparr>)
   = Inr \<lparr>user_id = Some 12, telegramId = 77, telegramUsername = ''new'',
          user_address = Some ''1Poor''\<rparr>
 \<and> existsBy demo_store 7
 \<and> registerUser demo_client demo_store
      \<lparr>user_id = None, telegramId = 7, telegramUsername = ''new'', user_address = None\<rparr>
   = (Inl USER_ALREADY_REGISTERED, demo_store)"
proof -
  let ?new = "\<lparr>user_id = None, telegramId = 77, telegramUsername = ''new'', user_address = None\<rparr>"
  let ?old = "\<lparr>user_id = None, telegramId = 7, telegramUsername = ''new'', user_address = None\<rparr>"
  have fresh: "\<not> existsBy demo_store (telegramId ?new)" by code_simp
  have known: "existsBy demo_store (telegramId ?old)" by code_simp
  have id: "next_id demo_store = 12" by (simp add: demo_store_def)
  have w: "wallet_address (deriveHDWallet (library demo_client) (Some 12)) = ''1Poor''"
    by (simp add: demo_client_def demo_library_def)
  from registerUser_once [of demo_store ?new demo_client] fresh
  have "fst (registerUser demo_client demo_store ?new)
        = Inr \<lparr>user_id = Some 12, telegramId = 77, telegramUsername = ''new'',
               user_address = Some ''1Poor''\<rparr>"
    by (simp add: Let_def id w)
  moreover from registerUser_once [of demo_store ?old demo_client] known
  have "registerUser demo_client demo_store ?old = (Inl USER_ALREADY_REGISTERED, demo_store)"
    by simp
  ultimately show ?thesis using fresh known by simp
qed

section \<open>Thresholds and address validation\<close>

text \<open>
  C6. With a fee percentage above 0, once the destination address has passed validation,
  if the native entry of the user's balance is at or below the sweep-all threshold,
  \<^verbatim>\<open>takeFeesAndSweepWalletFromUserTo\<close> rejects with \<^verbatim>\<open>TooSmallALPHWithdrawalError\<close>
  after the wallet derivation and the balance query only: no transaction is built or
  submitted.
\<close>

theorem takeFees_too_small:
  assumes valid: "isValidAddress (library c) destinationAddress"
      and fee: "0 < fees (operatorConfig c)"
      and bal: "getUserBalance c user None = (Resolved userBalance, l)"
      and alph: "filter (\<lambda>u. isALPH (library c) (token u)) userBalance = userBalanceAlph # others"
      and small: "amountAsNumber (library c) userBalanceAlph
                    \<le> strictMinimalWithdrawalAllAmount (operatorConfig c)"
  shows "takeFeesAndSweepWalletFromUserTo c user destinationAddress txStatus
         = (Rejected (TooSmallALPHWithdrawalError userBalanceAlph),
            [GetUserWallet (user_id user), GetAddressesAddressBalance (user_address user) None])"
proof -
  from bal have l: "l = [GetAddressesAddressBalance (user_address user) None]"
    using snd_getUserBalance [of c user None] by simp
  have "takeOperatorFees c user (getUserWallet c user) txStatus
        = (Rejected (TooSmallALPHWithdrawalError userBalanceAlph), l)"
    using bal alph small by (simp add: takeOperatorFees_def Let_def)
  then show ?thesis
    using valid fee l by (simp add: takeFeesAndSweepWalletFromUserTo_def derivedWallet_def)
qed

theorem takeFees_too_small_witness:
  "takeFeesAndSweepWalletFromUserTo demo_client (demo_user 2 ''1Poor'') demo_destination True
   = (Rejected (TooSmallALPHWithdrawalError \<lparr>amount = 1, token = ALPH\<rparr>),
      [GetUserWallet (user_id (demo_user 2 ''1Poor'')),
       GetAddressesAddressBalance (user_address (demo_user 2 ''1Poor'')) None])"
proof -
  have valid: "isValidAddress (library demo_client) demo_destination"
    by code_simp
  have fee: "0 < fees (operatorConfig demo_client)"
    by (simp add: demo_client_def)
  have bal: "getUserBalance demo_client (demo_user 2 ''1Poor'') None
             = (Resolved [\<lparr>amount = 1, token = ALPH\<rparr>],
                [GetAddressesAddressBalance (Some ''1Poor'') None])"
    by code_simp
  have alph: "filter (\<lambda>u. isALPH (library demo_client) (token u)) [\<lparr>amount = 1, token = ALPH\<rparr>]
              = \<lparr>amount = 1, token = ALPH\<rparr> # []"
    by (simp add: demo_client_def demo_library_def ALPH_def)
  have small: "amountAsNumber (library demo_client) \<lparr>amount = 1, token = ALPH\<rparr>
                 \<le> strictMinimalWithdrawalAllAmount (operatorConfig demo_client)"
    by (simp add: demo_client_def demo_library_def ALPH_def)
  show ?thesis by (rule takeFees_too_small [OF valid fee bal alph small])
qed

text \<open>
  C7. For a destination address that \<^verbatim>\<open>isValidAddress\<close> refuses,
  \<^verbatim>\<open>sendAmountToAddressFrom\<close> rejects with \<^verbatim>\<open>InvalidAddressError\<close> and has made no
  call at all: no wallet derived, no transaction built or submitted.
\<close>

theorem sendAmountToAddressFrom_invalid_address:
  assumes "\<not> isValidAddress (library c) destinationAddress"
  shows "sendAmountToAddressFrom c user tokenAmount destinationAddress txStatus
         = (Rejected (InvalidAddressError destinationAddress), [])"
  using assms by (simp add: sendAmountToAddressFrom_def)

theorem sendAmountToAddressFrom_invalid_address_witness:
  "sendAmountToAddressFrom demo_client (demo_user 1 ''1Rich'')
     \<lparr>amount = 1000000000000000000, token = ALPH\<rparr> ''0xDest'' True
   = (Rejected (InvalidAddressError ''0xDest''), [])"
proof -
  have h: "\<not> isValidAddress (library demo_client) ''0xDest''"
    by code_simp
  show ?thesis by (rule sendAmountToAddressFrom_invalid_address [OF h])
qed

text \<open>
  C8. For the native asset, once the destination address has passed validation,
  \<^verbatim>\<open>sendAmountToAddressFrom\<close> rejects with \<^verbatim>\<open>TooSmallALPHWithdrawalError\<close> exactly
  when the requested amount is at or below the minimum withdrawal threshold, and exactly
  then it has made no call at all; an amount strictly above the threshold passes the
  check.
\<close>

theorem sendAmount_minimal_withdrawal:
  assumes valid: "isValidAddress (library c) destinationAddress"
      and native: "isALPH (library c) (token tokenAmount)"
  shows "(amountAsNumber (library c) tokenAmount \<le> strictMinimalWithdrawalAmount (operatorConfig c))
           = (fst (sendAmountToAddressFrom c user tokenAmount destinationAddress txStatus)
                = Rejected (TooSmallALPHWithdrawalError tokenAmount))
       \<and> (amountAsNumber (library c) tokenAmount \<le> strictMinimalWithdrawalAmount (operatorConfig c))
           = (snd (sendAmountToAddressFrom c user tokenAmount destinationAddress txStatus) = [])"
proof (cases "amountAsNumber (library c) tokenAmount \<le> strictMinimalWithdrawalAmount (operatorConfig c)")
  case True
  with valid native show ?thesis by (simp add: sendAmountToAddressFrom_def)
next
  case False
  have "fst (sendAmountToAddressFrom c user tokenAmount destinationAddress txStatus)
          \<noteq> Rejected (TooSmallALPHWithdrawalError tokenAmount)"
    using valid False
    by (auto simp add: sendAmountToAddressFrom_def derivedWallet_def fst_andThen submitTransfer_def
        displayTransactionId_def awaitConfirmation_def rejectAdapted_not_TooSmall
        split: prod.splits sum.splits option.splits outcome.splits if_splits)
  moreover have "snd (sendAmountToAddressFrom c user tokenAmount destinationAddress txStatus) \<noteq> []"
    using valid False
    by (simp add: sendAmountToAddressFrom_def derivedWallet_def)
  ultimately show ?thesis using False by simp
qed

theorem sendAmount_minimal_withdrawal_witness:
  "fst (sendAmountToAddressFrom demo_client (demo_user 1 ''1Rich'')
          \<lparr>amount = 10000000000000000, token = ALPH\<rparr> demo_destination False)
     = Rejected (TooSmallALPHWithdrawalError \<lparr>amount = 10000000000000000, token = ALPH\<rparr>)
 \<and> snd (sendAmountToAddressFrom demo_client (demo_user 1 ''1Rich'')
          \<lparr>amount = 10000000000000000, token = ALPH\<rparr> demo_destination False) = []
 \<and> fst (sendAmountToAddressFrom demo_client (demo_user 1 ''1Rich'')
          \<lparr>amount = 1000000000000000000, token = ALPH\<rparr> demo_destination False)
     \<noteq> Rejected (TooSmallALPHWithdrawalError \<lparr>amount = 1000000000000000000, token = ALPH\<rparr>)
 \<and> snd (sendAmountToAddressFrom demo_client (demo_user 1 ''1Rich'')
          \<lparr>amount = 1000000000000000000, token = ALPH\<rparr> demo_destination False) \<noteq> []"
proof -
  let ?below = "\<lparr>amount = 10000000000000000, token = ALPH\<rparr>"
  let ?above = "\<lparr>amount = 1000000000000000000, token = ALPH\<rparr>"
  have valid: "isValidAddress (library demo_client) demo_destination"
    by code_simp
  have n1: "isALPH (library demo_client) (token ?below)"
    by (simp add: demo_client_def demo_library_def ALPH_def)
  have n2: "isALPH (library demo_client) (token ?above)"
    by (simp add: demo_client_def demo_library_def ALPH_def)
  have le: "amountAsNumber (library demo_client) ?below
              \<le> strictMinimalWithdrawalAmount (operatorConfig demo_client)"
    by (simp add: demo_client_def demo_library_def ALPH_def)
  have gt: "\<not> amountAsNumber (library demo_client) ?above
              \<le> strictMinimalWithdrawalAmount (operatorConfig demo_client)"
    by (simp add: demo_client_def demo_library_def ALPH_def)
  from sendAmount_minimal_withdrawal [OF valid n1, of "demo_user 1 ''1Rich''" False] le
  have a: "fst (sendAmountToAddressFrom demo_client (demo_user 1 ''1Rich'') ?below demo_destination False)
             = Rejected (TooSmallALPHWithdrawalError ?below)
         \<and> snd (sendAmountToAddressFrom demo_client (demo_user 1 ''1Rich'') ?below demo_destination False) = []"
    by simp
  from sendAmount_minimal_withdrawal [OF valid n2, of "demo_user 1 ''1Rich''" False] gt
  have b: "fst (sendAmountToAddressFrom demo_client (demo_user 1 ''1Rich'') ?above demo_destination False)
             \<noteq> Rejected (TooSmallALPHWithdrawalError ?above)
         \<and> snd (sendAmountToAddressFrom demo_client (demo_user 1 ''1Rich'') ?above demo_destination False) \<noteq> []"
    by simp
  from a b show ?thesis by simp
qed

section \<open>User balances\<close>

text \<open>
  C9, as stated, does not hold: called with a token, \<^verbatim>\<open>getUserBalance\<close> keeps only
  the entries of that token, and for a token other than the native asset the result has
  no native entry.
\<close>

theorem getUserBalance_filtered_drops_native:
  "getUserBalance demo_client (demo_user 1 ''1Rich'') (Some AYIN)
   = (Resolved [\<lparr>amount = 250, token = AYIN\<rparr>], [GetAddressesAddressBalance (Some ''1Rich'') None])
   \<and> getTokenBySymbol (tokenManager demo_client) ''ALPH'' = Inr ALPH
   \<and> token \<lparr>amount = 250, token = AYIN\<rparr> \<noteq> ALPH
   \<and> \<not> isALPH (library demo_client) (token \<lparr>amount = 250, token = AYIN\<rparr>)"
  by code_simp

text \<open>
  C9, amended. \<^verbatim>\<open>getUserBalance\<close> resolves exactly when the node answers the balance
  query and the registry knows the token for \<^verbatim>\<open>"ALPH"\<close>, whatever the registry
  answers for the held assets: an asset it does not recognise is dropped and is never
  fatal to the query. Without a token argument the balance returned starts with the
  entry of the native asset (with the native balance the node reports, possibly zero),
  followed by the entries of the held assets that the registry recognises, in order and
  as the registry gives them. With a token argument the result is that list restricted
  to the entries of the token's id.
\<close>

theorem getUserBalance_entries:
  "getUserBalance c user tok = (Resolved ub, l)
   \<longleftrightarrow> (\<exists>b alphToken.
           getAddressesAddressBalance (nodeProvider c) (user_address user) None = Inr b
         \<and> getTokenBySymbol (tokenManager c) ''ALPH'' = Inr alphToken
         \<and> ub = (let unfiltered =
                        \<lparr>amount = balance b, token = alphToken\<rparr>
                        # concat (map (\<lambda>(i, a). case getTokenAmountFromIdAmount (tokenManager c) i a of
                                                  Inl _ \<Rightarrow> [] | Inr ta \<Rightarrow> [ta])
                                   (case tokenBalances b of None \<Rightarrow> [] | Some held \<Rightarrow> held))
                 in case tok of
                      None \<Rightarrow> unfiltered
                    | Some t \<Rightarrow> filter (\<lambda>x. token_id (token x) = token_id t) unfiltered)
         \<and> l = [GetAddressesAddressBalance (user_address user) None])"
proof
  assume r: "getUserBalance c user tok = (Resolved ub, l)"
  then have "l = [GetAddressesAddressBalance (user_address user) None]"
    using snd_getUserBalance [of c user tok] by simp
  with getUserBalance_resolved [OF r] show
    "\<exists>b alphToken.
       getAddressesAddressBalance (nodeProvider c) (user_address user) None = Inr b
     \<and> getTokenBySymbol (tokenManager c) ''ALPH'' = Inr alphToken
     \<and> ub = (let unfiltered =
                    \<lparr>amount = balance b, token = alphToken\<rparr>
                    # concat (map (\<lambda>(i, a). case getTokenAmountFromIdAmount (tokenManager c) i a of
                                              Inl _ \<Rightarrow> [] | Inr ta \<Rightarrow> [ta])
                               (case tokenBalances b of None \<Rightarrow> [] | Some held \<Rightarrow> held))
             in case tok of
                  None \<Rightarrow> unfiltered
                | Some t \<Rightarrow> filter (\<lambda>x. token_id (token x) = token_id t) unfiltered)
     \<and> l = [GetAddressesAddressBalance (user_address user) None]"
    by blast
next
  assume "\<exists>b alphToken.
       getAddressesAddressBalance (nodeProvider c) (user_address user) None = Inr b
     \<and> getTokenBySymbol (tokenManager c) ''ALPH'' = Inr alphToken
     \<and> ub = (let unfiltered =
                    \<lparr>amount = balance b, token = alphToken\<rparr>
                    # concat (map (\<lambda>(i, a). case getTokenAmountFromIdAmount (tokenManager c) i a of
                                              Inl _ \<Rightarrow> [] | Inr ta \<Rightarrow> [ta])
                               (case tokenBalances b of None \<Rightarrow> [] | Some held \<Rightarrow> held))
             in case tok of
                  None \<Rightarrow> unfiltered
                | Some t \<Rightarrow> filter (\<lambda>x. token_id (token x) = token_id t) unfiltered)
     \<and> l = [GetAddressesAddressBalance (user_address user) None]"
  then show "getUserBalance c user tok = (Resolved ub, l)"
    using getUserBalance_resolves [of c user _ _ tok] by auto
qed

theorem getUserBalance_entries_witness:
  "getTokenAmountFromIdAmount (tokenManager demo_client) ''ffff'' 7 = Inl (ErrorObj ''no such token'')
 \<and> getUserBalance demo_client (demo_user 1 ''1Rich'') None
   = (Resolved [\<lparr>amount = 5000000000000000019, token = ALPH\<rparr>, \<lparr>amount = 250, token = AYIN\<rparr>],
      [GetAddressesAddressBalance (user_address (demo_user 1 ''1Rich'')) None])"
proof -
  let ?b = "\<lparr>balance = 5000000000000000019,
             tokenBalances = Some [(''1a28'', 250), (''ffff'', 7)], utxoNum = 3\<rparr>"
  have unknown: "getTokenAmountFromIdAmount (tokenManager demo_client) ''ffff'' 7
                 = Inl (ErrorObj ''no such token'')"
    by (simp add: demo_client_def demo_tokenManager_def)
  have "\<exists>b alphToken.
          getAddressesAddressBalance (nodeProvider demo_client)
            (user_address (demo_user 1 ''1Rich'')) None = Inr b
        \<and> getTokenBySymbol (tokenManager demo_client) ''ALPH'' = Inr alphToken
        \<and> [\<lparr>amount = 5000000000000000019, token = ALPH\<rparr>, \<lparr>amount = 250, token = AYIN\<rparr>]
          = (let unfiltered =
                   \<lparr>amount = balance b, token = alphToken\<rparr>
                   # concat (map (\<lambda>(i, a). case getTokenAmountFromIdAmount (tokenManager demo_client) i a of
                                             Inl _ \<Rightarrow> [] | Inr ta \<Rightarrow> [ta])
                              (case tokenBalances b of None \<Rightarrow> [] | Some held \<Rightarrow> held))
             in case (None :: Token option) of
                  None \<Rightarrow> unfiltered
                | Some t \<Rightarrow> filter (\<lambda>x. token_id (token x) = token_id t) unfiltered)
        \<and> [GetAddressesAddressBalance (user_address (demo_user 1 ''1Rich'')) None]
          = [GetAddressesAddressBalance (user_address (demo_user 1 ''1Rich'')) None]"
    by (intro exI [of _ ?b] exI [of _ ALPH])
      (simp add: demo_client_def demo_nodeProvider_def demo_tokenManager_def demo_user_def Let_def)
  then have "getUserBalance demo_client (demo_user 1 ''1Rich'') None
             = (Resolved [\<lparr>amount = 5000000000000000019, token = ALPH\<rparr>, \<lparr>amount = 250, token = AYIN\<rparr>],
                [GetAddressesAddressBalance (user_address (demo_user 1 ''1Rich'')) None])"
    by (rule getUserBalance_entries [THEN iffD2])
  with unknown show ?thesis by simp
qed

text \<open>
  C10. Called with a token, \<^verbatim>\<open>getUserBalance\<close> resolves with exactly the entries of
  the unfiltered balance whose token id is the given token's id; when there is none, it
  resolves with the empty list.
\<close>

theorem getUserBalance_token_filter:
  assumes "getUserBalance c user None = (Resolved ub, l)"
  shows "getUserBalance c user (Some t)
         = (Resolved (filter (\<lambda>x. token_id (token x) = token_id t) ub), l)"
  using assms
  by (auto simp add: getUserBalance_def Let_def split: sum.splits if_splits)

theorem getUserBalance_token_filter_witness:
  "getUserBalance demo_client (demo_user 2 ''1Poor'') (Some AYIN)
   = (Resolved [], [GetAddressesAddressBalance (Some ''1Poor'') None])"
proof -
  have h: "getUserBalance demo_client (demo_user 2 ''1Poor'') None
           = (Resolved [\<lparr>amount = 1, token = ALPH\<rparr>],
              [GetAddressesAddressBalance (Some ''1Poor'') None])"
    by code_simp
  have "getUserBalance demo_client (demo_user 2 ''1Poor'') (Some AYIN)
        = (Resolved (filter (\<lambda>x. token_id (token x) = token_id AYIN) [\<lparr>amount = 1, token = ALPH\<rparr>]),
           [GetAddressesAddressBalance (Some ''1Poor'') None])"
    by (rule getUserBalance_token_filter [OF h])
  then show ?thesis by (simp add: ALPH_def AYIN_def)
qed

end
